theory Spec2Isabelle
  imports Main
begin

section \<open>The header \<^verbatim>\<open>Sources/COpenCrypto/shim.h\<close>\<close>

text \<open>
  The repository's only source file is the header \<^verbatim>\<open>shim.h\<close>. It is embedded as it
  stands: one string per line of the file, in the file's order. The last line has no
  line terminator; the two empty strings are the file's two blank lines.
\<close>

definition shim_h :: "string list" where
  "shim_h =
    [''#ifndef C_OPEN_CRYPTO_H'',
     ''#define C_OPEN_CRYPTO_H'',
     '''',
     ''#include <openssl/conf.h>'',
     ''#include <openssl/evp.h>'',
     ''#include <openssl/err.h>'',
     ''#include <openssl/bio.h>'',
     ''#include <openssl/ssl.h>'',
     ''#include <openssl/sha.h>'',
     ''#include <openssl/md5.h>'',
     ''#include <openssl/hmac.h>'',
     ''#include <openssl/rand.h>'',
     ''#include <openssl/rsa.h>'',
     ''#include <openssl/pkcs12.h>'',
     ''#include <openssl/x509v3.h>'',
     '''',
     ''#endif'']"

section \<open>The lines of a header\<close>

text \<open>
  What a line of the header is to the C preprocessor. The directives are the four that
  \<^verbatim>\<open>shim.h\<close> uses; \<open>Other\<close> is every line that is none of them: a declaration, a
  function or type definition, or a directive the header does not use. It keeps the
  line's text.
\<close>

datatype line =
    Ifndef string
  | Define string
  | Include string
  | Endif
  | Blank
  | Other string

definition is_space :: "char \<Rightarrow> bool" where
  "is_space c = (c = CHR '' '' \<or> c = CHR 0x09)"

text \<open>\<open>strip_prefix p s\<close> is what follows \<open>p\<close> in \<open>s\<close>, when \<open>s\<close> starts with \<open>p\<close>.\<close>

fun strip_prefix :: "string \<Rightarrow> string \<Rightarrow> string option" where
  "strip_prefix [] s = Some s"
| "strip_prefix (p # ps) [] = None"
| "strip_prefix (p # ps) (c # cs) = (if p = c then strip_prefix ps cs else None)"

text \<open>The macro's name: the text up to the first blank.\<close>

definition macro_name :: "string \<Rightarrow> string" where
  "macro_name r = takeWhile (\<lambda>c. \<not> is_space c) r"

text \<open>
  A line is read in the form \<^verbatim>\<open>shim.h\<close> writes its directives: the \<^verbatim>\<open>#\<close> in the
  first column, one blank after the directive's name, a system header between angle
  brackets. A line in any other form is \<open>Other\<close>.
\<close>

definition parse_line :: "string \<Rightarrow> line" where
  "parse_line s =
    (if list_all is_space s then Blank
     else case strip_prefix ''#ifndef '' s of
       Some r \<Rightarrow> Ifndef (macro_name r)
     | None \<Rightarrow>
      (case strip_prefix ''#define '' s of
         Some r \<Rightarrow> Define (macro_name r)
       | None \<Rightarrow>
        (case strip_prefix ''#include <'' s of
           Some r \<Rightarrow>
             (if r \<noteq> [] \<and> last r = CHR ''>'' then Include (butlast r) else Other s)
         | None \<Rightarrow>
          (case strip_prefix ''#endif'' s of
             Some r \<Rightarrow> (if list_all is_space r then Endif else Other s)
           | None \<Rightarrow> Other s))))"

fun is_directive_or_blank :: "line \<Rightarrow> bool" where
  "is_directive_or_blank (Other t) = False"
| "is_directive_or_blank l = True"

fun included :: "line list \<Rightarrow> string list" where
  "included [] = []"
| "included (Include h # ls) = h # included ls"
| "included (l # ls) = included ls"

section \<open>Preprocessing\<close>

text \<open>
  The preprocessor's state at the point of an inclusion: the macros defined so far and
  what the translation unit holds so far. The headers \<^verbatim>\<open>shim.h\<close> includes belong to
  the external library and are not part of the repository, so the inclusion of one is
  kept as a \<open>Header\<close> item standing for that header's declarations; a line that is no
  directive is passed through as \<open>Text\<close>.
\<close>

datatype item = Header string | Text string

record pp_state =
  defined :: "string set"
  emitted :: "item list"

datatype pp_error = UnterminatedConditional | EndifWithoutIf

text \<open>
  The stack holds one flag per open conditional, the innermost first: whether the lines
  of that group are processed. A group is processed when its condition holds and the
  group around it is processed.
\<close>

fun active :: "bool list \<Rightarrow> bool" where
  "active [] = True"
| "active (b # bs) = b"

fun run :: "line list \<Rightarrow> bool list \<Rightarrow> pp_state \<Rightarrow> pp_error + pp_state" where
  "run [] [] st = Inr st"
| "run [] (b # bs) st = Inl UnterminatedConditional"
| "run (Ifndef m # ls) stk st = run ls ((active stk \<and> m \<notin> defined st) # stk) st"
| "run (Endif # ls) [] st = Inl EndifWithoutIf"
| "run (Endif # ls) (b # bs) st = run ls bs st"
| "run (Define m # ls) stk st =
     run ls stk (if active stk then st\<lparr>defined := insert m (defined st)\<rparr> else st)"
| "run (Include h # ls) stk st =
     run ls stk (if active stk then st\<lparr>emitted := emitted st @ [Header h]\<rparr> else st)"
| "run (Blank # ls) stk st = run ls stk st"
| "run (Other t # ls) stk st =
     run ls stk (if active stk then st\<lparr>emitted := emitted st @ [Text t]\<rparr> else st)"

text \<open>
  Including a file processes its lines with no conditional open: the conditionals of a
  file are closed within the file.
\<close>

definition include_file :: "string list \<Rightarrow> pp_state \<Rightarrow> pp_error + pp_state" where
  "include_file src st = run (map parse_line src) [] st"

text \<open>Including the same file \<open>n\<close> times in a row; the first error ends it.\<close>

fun include_times :: "nat \<Rightarrow> string list \<Rightarrow> pp_state \<Rightarrow> pp_error + pp_state" where
  "include_times 0 src st = Inr st"
| "include_times (Suc n) src st =
     (case include_file src st of
        Inl e \<Rightarrow> Inl e
      | Inr st' \<Rightarrow> include_times n src st')"

text \<open>The headers of the external library that \<^verbatim>\<open>shim.h\<close> names, in its order.\<close>

definition shim_headers :: "string list" where
  "shim_headers =
    [''openssl/conf.h'', ''openssl/evp.h'', ''openssl/err.h'', ''openssl/bio.h'',
     ''openssl/ssl.h'', ''openssl/sha.h'', ''openssl/md5.h'', ''openssl/hmac.h'',
     ''openssl/rand.h'', ''openssl/rsa.h'', ''openssl/pkcs12.h'', ''openssl/x509v3.h'']"

section \<open>The parsed header\<close>

lemma parse_shim_h:
  "map parse_line shim_h =
     [Ifndef ''C_OPEN_CRYPTO_H'', Define ''C_OPEN_CRYPTO_H'', Blank] @
     map Include shim_headers @ [Blank, Endif]"
  by (simp add: shim_h_def shim_headers_def parse_line_def macro_name_def is_space_def)

section \<open>What one inclusion does\<close>

text \<open>
  Including \<^verbatim>\<open>shim.h\<close> never fails, whatever was defined before. Where the guard macro
  is already defined the inclusion changes nothing; where it is not, the inclusion
  defines it and adds the twelve headers, in the file's order.
\<close>

lemma include_shim_h:
  "include_file shim_h st =
     Inr (if ''C_OPEN_CRYPTO_H'' \<in> defined st then st
          else st\<lparr>defined := insert ''C_OPEN_CRYPTO_H'' (defined st),
                  emitted := emitted st @ map Header shim_headers\<rparr>)"
proof (cases "''C_OPEN_CRYPTO_H'' \<in> defined st")
  case True
  then show ?thesis
    by (simp add: include_file_def parse_shim_h shim_headers_def)
next
  case False
  then show ?thesis
    by (simp add: include_file_def parse_shim_h shim_headers_def)
qed

lemma include_shim_h_defines:
  "include_file shim_h st = Inr st' \<Longrightarrow> ''C_OPEN_CRYPTO_H'' \<in> defined st'"
  by (auto simp: include_shim_h split: if_splits)

lemma include_shim_h_again:
  "''C_OPEN_CRYPTO_H'' \<in> defined st \<Longrightarrow> include_times n shim_h st = Inr st"
  by (induction n) (simp_all add: include_shim_h)

section \<open>The claims\<close>

text \<open>
  C1. The program is one header of 17 lines that consists only of an include guard and
  \<^verbatim>\<open>#include\<close> directives: the file has 17 lines; read line by line it is the guard's
  \<^verbatim>\<open>#ifndef\<close> and \<^verbatim>\<open>#define\<close>, a blank line, twelve inclusions of headers of the
  external library, a blank line and the guard's \<^verbatim>\<open>#endif\<close>. No line is anything but a
  directive or blank, so the file holds no function definition, no algorithm, no state
  machine and no data structure of its own. The headers for TLS, X.509, PKCS12 and MD5
  are among the twelve, and nothing but the guard stands between an includer and any of
  them: included where the guard is not yet defined, the header passes on all twelve.
\<close>

theorem shim_h_only_guard_and_includes:
  "length shim_h = 17
   \<and> map parse_line shim_h =
       [Ifndef ''C_OPEN_CRYPTO_H'', Define ''C_OPEN_CRYPTO_H'', Blank] @
       map Include shim_headers @ [Blank, Endif]
   \<and> list_all is_directive_or_blank (map parse_line shim_h)
   \<and> included (map parse_line shim_h) = shim_headers
   \<and> list_all (\<lambda>h. h \<in> set shim_headers)
        [''openssl/ssl.h'', ''openssl/x509v3.h'', ''openssl/pkcs12.h'', ''openssl/md5.h'']
   \<and> include_file shim_h \<lparr>defined = {}, emitted = []\<rparr> =
       Inr \<lparr>defined = {''C_OPEN_CRYPTO_H''}, emitted = map Header shim_headers\<rparr>"
proof (intro conjI)
  show "length shim_h = 17"
    by (simp add: shim_h_def)
  show p: "map parse_line shim_h =
       [Ifndef ''C_OPEN_CRYPTO_H'', Define ''C_OPEN_CRYPTO_H'', Blank] @
       map Include shim_headers @ [Blank, Endif]"
    by (rule parse_shim_h)
  show "list_all is_directive_or_blank (map parse_line shim_h)"
    by (simp add: p shim_headers_def)
  show "included (map parse_line shim_h) = shim_headers"
    by (simp add: p shim_headers_def)
  show "list_all (\<lambda>h. h \<in> set shim_headers)
        [''openssl/ssl.h'', ''openssl/x509v3.h'', ''openssl/pkcs12.h'', ''openssl/md5.h'']"
    by (simp add: shim_headers_def)
  show "include_file shim_h \<lparr>defined = {}, emitted = []\<rparr> =
       Inr \<lparr>defined = {''C_OPEN_CRYPTO_H''}, emitted = map Header shim_headers\<rparr>"
    by (simp add: include_shim_h)
qed

text \<open>
  C10. Including \<^verbatim>\<open>shim.h\<close> more than once is the same as including it once: from any
  preprocessor state, two or more inclusions in a row end in the state that one
  inclusion ends in. That state is the starting state itself where the guard macro
  \<^verbatim>\<open>C_OPEN_CRYPTO_H\<close> was already defined, and otherwise the starting state with the
  guard defined and each of the twelve headers added once; the twelve are pairwise
  different, so nothing is passed on twice.
\<close>

theorem shim_h_include_guard_idempotent:
  "include_times (Suc (Suc n)) shim_h st = include_file shim_h st
   \<and> include_file shim_h st =
       Inr (if ''C_OPEN_CRYPTO_H'' \<in> defined st then st
            else st\<lparr>defined := insert ''C_OPEN_CRYPTO_H'' (defined st),
                    emitted := emitted st @ map Header shim_headers\<rparr>)
   \<and> distinct shim_headers"
proof (intro conjI)
  obtain st' where once: "include_file shim_h st = Inr st'"
    by (simp add: include_shim_h)
  then have "''C_OPEN_CRYPTO_H'' \<in> defined st'"
    by (rule include_shim_h_defines)
  then have "include_times (Suc n) shim_h st' = Inr st'"
    by (rule include_shim_h_again)
  with once show "include_times (Suc (Suc n)) shim_h st = include_file shim_h st"
    by simp
  show "include_file shim_h st =
       Inr (if ''C_OPEN_CRYPTO_H'' \<in> defined st then st
            else st\<lparr>defined := insert ''C_OPEN_CRYPTO_H'' (defined st),
                    emitted := emitted st @ map Header shim_headers\<rparr>)"
    by (rule include_shim_h)
  show "distinct shim_headers"
    by (simp add: shim_headers_def)
qed

end
